theory Spec2Isabelle
  imports Complex_Main
begin

section \<open>Thin-film boundary-value scripts: the numerical core\<close>

text \<open>
  The repository is a set of Python scripts that set up the third-order equation
  \<open>h''' = - 0.01 / (h\<^sup>2 + h)\<close> as a first-order system, hand it to a library solver, and
  plot the result.  This theory embeds the functions the scripts define themselves:
  the right-hand sides \<^verbatim>\<open>ode_system\<close>, the boundary residual \<^verbatim>\<open>bc\<close>, the two initial
  guesses, the closed-form helpers of \<^verbatim>\<open>George-Zhang-v1.0.py\<close> and the functions of
  \<^verbatim>\<open>Cox-Voinov-largeX.py\<close>.

  A float64 is modelled as a real number: rounding, overflow and underflow are left
  out, and a decimal literal such as \<^verbatim>\<open>0.01\<close> is the exact decimal.  What is kept is the
  one place where real arithmetic and numpy part ways, a zero divisor: numpy does not
  raise, it warns and stores \<^verbatim>\<open>inf\<close> or \<^verbatim>\<open>nan\<close>.
\<close>

subsection \<open>Array elements\<close>

text \<open>
  \<open>Fin r\<close> is a finite value.  \<open>NonFinite\<close> is what a division by zero, a logarithm of a
  non-positive number or a fractional power of a negative number stores (\<^verbatim>\<open>inf\<close>,
  \<^verbatim>\<open>-inf\<close> or \<^verbatim>\<open>nan\<close>), and stands as well for every value later computed from one.
\<close>

datatype npfloat = Fin real | NonFinite

datatype np_error = IndexError | ValueError

fun fadd :: "npfloat \<Rightarrow> npfloat \<Rightarrow> npfloat" where
  "fadd (Fin a) (Fin b) = Fin (a + b)"
| "fadd _ _ = NonFinite"

fun fsub :: "npfloat \<Rightarrow> npfloat \<Rightarrow> npfloat" where
  "fsub (Fin a) (Fin b) = Fin (a - b)"
| "fsub _ _ = NonFinite"

fun fmul :: "npfloat \<Rightarrow> npfloat \<Rightarrow> npfloat" where
  "fmul (Fin a) (Fin b) = Fin (a * b)"
| "fmul _ _ = NonFinite"

fun fdiv :: "npfloat \<Rightarrow> npfloat \<Rightarrow> npfloat" where
  "fdiv (Fin a) (Fin b) = (if b = 0 then NonFinite else Fin (a / b))"
| "fdiv _ _ = NonFinite"

text \<open>\<^verbatim>\<open>v ** n\<close> for a literal natural exponent.\<close>

fun fpow :: "npfloat \<Rightarrow> nat \<Rightarrow> npfloat" where
  "fpow (Fin a) n = Fin (a ^ n)"
| "fpow NonFinite n = NonFinite"

text \<open>\<^verbatim>\<open>np.log\<close>: \<^verbatim>\<open>-inf\<close> at zero, \<^verbatim>\<open>nan\<close> below.\<close>

fun np_log :: "npfloat \<Rightarrow> npfloat" where
  "np_log (Fin a) = (if 0 < a then Fin (ln a) else NonFinite)"
| "np_log NonFinite = NonFinite"

text \<open>
  \<^verbatim>\<open>v ** p\<close> for a float exponent \<open>p\<close>.  A negative base has a power only for a whole
  \<open>p\<close> and gives \<^verbatim>\<open>nan\<close> otherwise; base zero gives \<^verbatim>\<open>inf\<close> for \<open>p < 0\<close>, \<open>1\<close> for \<open>p = 0\<close>
  and \<open>0\<close> for \<open>p > 0\<close>.
\<close>

fun np_power :: "npfloat \<Rightarrow> real \<Rightarrow> npfloat" where
  "np_power (Fin a) p =
     (if a < 0 then (if p = of_int \<lfloor>p\<rfloor> then Fin (a powi \<lfloor>p\<rfloor>) else NonFinite)
      else if a = 0 then (if p < 0 then NonFinite else if p = 0 then Fin 1 else Fin 0)
      else Fin (a powr p))"
| "np_power NonFinite p = NonFinite"

subsection \<open>Arrays\<close>

text \<open>
  A one-dimensional array is a list, a two-dimensional one the list of its rows.  The
  operators below are numpy's element-wise ones on arrays of one shape, and the
  broadcast of a scalar.
\<close>

type_synonym arr = "npfloat list"
type_synonym arr2 = "npfloat list list"

definition arr_add :: "arr \<Rightarrow> arr \<Rightarrow> arr" where
  "arr_add u v = map2 fadd u v"

definition arr_add_scalar :: "arr \<Rightarrow> npfloat \<Rightarrow> arr" where
  "arr_add_scalar u c = map (\<lambda>a. fadd a c) u"

definition arr_pow :: "arr \<Rightarrow> nat \<Rightarrow> arr" where
  "arr_pow u n = map (\<lambda>a. fpow a n) u"

definition scalar_div_arr :: "npfloat \<Rightarrow> arr \<Rightarrow> arr" where
  "scalar_div_arr c u = map (\<lambda>a. fdiv c a) u"

text \<open>\<^verbatim>\<open>np.vstack\<close> of one-dimensional rows: they must have one length.\<close>

definition vstack :: "arr list \<Rightarrow> np_error + arr2" where
  "vstack rows =
     (case rows of
        [] \<Rightarrow> Inl ValueError
      | r # rs \<Rightarrow> if list_all (\<lambda>s. length s = length r) rs then Inr rows else Inl ValueError)"


subsection \<open>The right-hand sides\<close>

text \<open>
  \<^verbatim>\<open>ode_system(x, y)\<close> of \<^verbatim>\<open>George-Zhang-v1.1.py\<close>, \<^verbatim>\<open>-v1.3.py\<close>, \<^verbatim>\<open>-v2.0.py\<close> and
  \<^verbatim>\<open>adam-kicman-v2.py\<close>.  The module-level \<^verbatim>\<open>eps\<close> is the first argument.  \<open>y\<close> has the
  three rows \<open>h, h', h''\<close>; an index beyond the rows raises \<^verbatim>\<open>IndexError\<close>.
\<close>

definition ode_system :: "real \<Rightarrow> real list \<Rightarrow> arr2 \<Rightarrow> np_error + arr2" where
  "ode_system eps x y =
     (if length y < 3 then Inl IndexError
      else
        let h = y ! 0;
            denom = arr_add_scalar (arr_add (arr_pow h 2) h) (Fin eps);
            d3h = scalar_div_arr (Fin (- 0.01)) denom
        in vstack [y ! 1, y ! 2, d3h])"

text \<open>The values of \<^verbatim>\<open>eps\<close> the scripts set.\<close>

definition eps_george_zhang :: real where
  "eps_george_zhang = 1 / 10 ^ 6"

definition eps_adam_kicman_v2 :: real where
  "eps_adam_kicman_v2 = 1 / 10 ^ 10"

text \<open>\<^verbatim>\<open>ode_system(x, y)\<close> of \<^verbatim>\<open>adam-kicman-v1.py\<close>: no \<^verbatim>\<open>eps\<close> in the denominator.\<close>

definition ode_system_ak1 :: "real list \<Rightarrow> arr2 \<Rightarrow> np_error + arr2" where
  "ode_system_ak1 x y =
     (if length y < 3 then Inl IndexError
      else
        let h = y ! 0;
            rhs = scalar_div_arr (Fin (- 0.01)) (arr_add (arr_pow h 2) h)
        in vstack [y ! 1, y ! 2, rhs])"

text \<open>
  \<^verbatim>\<open>ode_system(x, y)\<close> of \<^verbatim>\<open>Vatsal_SolutionChatGPT.py\<close>: \<open>y\<close> is unpacked into exactly
  three scalars (anything else raises \<^verbatim>\<open>ValueError\<close>) and a list of three is returned.
\<close>

definition ode_system_vatsal :: "real \<Rightarrow> arr \<Rightarrow> np_error + arr" where
  "ode_system_vatsal x y =
     (case y of
        [h1, h2, h3] \<Rightarrow>
          let dh3dx = fmul (Fin (- 0.01)) (fdiv (Fin 1) (fadd (fpow h1 2) h1));
              dh1dx = h2;
              dh2dx = h3
          in Inr [dh1dx, dh2dx, dh3dx]
      | _ \<Rightarrow> Inl ValueError)"

subsection \<open>The boundary residual\<close>

text \<open>
  \<^verbatim>\<open>bc(ya, yb)\<close>, the same in every script that has it.  \<open>ya\<close> and \<open>yb\<close> are the state
  at the first and at the last mesh point.
\<close>

definition bc :: "arr \<Rightarrow> arr \<Rightarrow> np_error + arr" where
  "bc ya yb =
     (if length ya < 2 \<or> length yb < 3 then Inl IndexError
      else Inr [fsub (ya ! 0) (Fin 0), fsub (ya ! 1) (Fin 1), fsub (yb ! 2) (Fin 0)])"

subsection \<open>Closed-form helpers\<close>

text \<open>
  \<^verbatim>\<open>h_prime(h)\<close> and \<^verbatim>\<open>h_double_prime(h)\<close> of \<^verbatim>\<open>George-Zhang-v1.0.py\<close>.  The script
  applies them to an array; they act element by element, and the model is the action
  on one element.
\<close>

definition h_prime :: "npfloat \<Rightarrow> npfloat" where
  "h_prime h = fdiv (Fin (- 0.01)) (fadd (fpow h 2) h)"

definition h_double_prime :: "npfloat \<Rightarrow> npfloat" where
  "h_double_prime h =
     fdiv (fmul (Fin (- 0.0001)) (fadd (fmul (Fin 2) h) (Fin 1))) (fpow (fadd (fpow h 2) h) 3)"

text \<open>
  \<^verbatim>\<open>theta_cubed(x)\<close>, \<^verbatim>\<open>theta(x)\<close> and \<^verbatim>\<open>dtheta_dx(x)\<close> of \<^verbatim>\<open>Cox-Voinov-largeX.py\<close>, on one
  element.  \<^verbatim>\<open>np.e\<close> is \<open>exp 1\<close> and the exponent \<^verbatim>\<open>1/3\<close> is one third.
\<close>

definition theta_cubed :: "npfloat \<Rightarrow> npfloat" where
  "theta_cubed x = fadd (Fin 1) (fmul (Fin 0.03) (np_log (fmul (Fin (exp 1)) x)))"

definition theta :: "npfloat \<Rightarrow> npfloat" where
  "theta x = np_power (theta_cubed x) (1 / 3)"

definition dtheta_dx :: "npfloat \<Rightarrow> npfloat" where
  "dtheta_dx x = (let theta_val = theta x in fdiv (Fin 0.01) (fmul x (fpow theta_val 2)))"

subsection \<open>Meshes and finite differences\<close>

text \<open>
  \<^verbatim>\<open>np.linspace(start, stop, num)\<close>: \<^verbatim>\<open>arange(0, num) * step + start\<close> with
  \<^verbatim>\<open>step = (stop - start) / (num - 1)\<close>, and the last entry overwritten by \<^verbatim>\<open>stop\<close> when
  \<^verbatim>\<open>num > 1\<close>.  A single point is \<^verbatim>\<open>start\<close>.
\<close>

definition linspace :: "real \<Rightarrow> real \<Rightarrow> nat \<Rightarrow> real list" where
  "linspace start stop num =
     (if num \<le> 1 then replicate num start
      else
        let step = (stop - start) / real (num - 1);
            y = map (\<lambda>i. real i * step + start) [0..<num]
        in y[num - 1 := stop])"

text \<open>More element-wise operators, and the lift of a mesh to an array.\<close>

definition of_reals :: "real list \<Rightarrow> arr" where
  "of_reals x = map Fin x"

definition arr_sub :: "arr \<Rightarrow> arr \<Rightarrow> arr" where
  "arr_sub u v = map2 fsub u v"

definition arr_mul :: "arr \<Rightarrow> arr \<Rightarrow> arr" where
  "arr_mul u v = map2 fmul u v"

definition arr_div :: "arr \<Rightarrow> arr \<Rightarrow> arr" where
  "arr_div u v = map2 fdiv u v"

definition arr_div_scalar :: "arr \<Rightarrow> npfloat \<Rightarrow> arr" where
  "arr_div_scalar u c = map (\<lambda>a. fdiv a c) u"

text \<open>\<^verbatim>\<open>np.diff(x)\<close>, that is \<^verbatim>\<open>x[1:] - x[:-1]\<close>.\<close>

definition np_diff :: "real list \<Rightarrow> real list" where
  "np_diff x = map2 (\<lambda>a b. a - b) (tl x) (butlast x)"

text \<open>
  \<^verbatim>\<open>np.gradient(f, x)\<close> for a one-dimensional \<open>f\<close> and a coordinate array \<open>x\<close>, with the
  default \<^verbatim>\<open>edge_order=1\<close>, as numpy computes it.  The coordinates must be as many as the
  values (\<^verbatim>\<open>ValueError\<close> otherwise), and with fewer than two of them the test of the
  spacings, \<^verbatim>\<open>(diffx == diffx[0]).all()\<close>, reads the first of none and raises.  When all
  spacings are equal the interior is the central difference
  \<^verbatim>\<open>(f[2:] - f[:-2]) / (2 * dx)\<close>, otherwise it is \<^verbatim>\<open>a * f[:-2] + b * f[1:-1] + c * f[2:]\<close>
  with the coefficients below; the two ends are one-sided differences.
\<close>

definition gradient :: "arr \<Rightarrow> real list \<Rightarrow> np_error + arr" where
  "gradient f x =
     (if length x \<noteq> length f then Inl ValueError
      else if length f < 2 then Inl IndexError
      else
        let n = length f;
            diffx = np_diff x
        in
          if list_all (\<lambda>d. d = diffx ! 0) diffx then
            let dx = diffx ! 0;
                interior = arr_div_scalar (arr_sub (drop 2 f) (take (n - 2) f)) (Fin (2 * dx));
                first = fdiv (fsub (f ! 1) (f ! 0)) (Fin dx);
                final = fdiv (fsub (f ! (n - 1)) (f ! (n - 2))) (Fin dx)
            in Inr ([first] @ interior @ [final])
          else
            let dx1 = of_reals (butlast diffx);
                dx2 = of_reals (tl diffx);
                a = arr_div (map (fmul (Fin (- 1))) dx2) (arr_mul dx1 (arr_add dx1 dx2));
                b = arr_div (arr_sub dx2 dx1) (arr_mul dx1 dx2);
                c = arr_div dx1 (arr_mul dx2 (arr_add dx1 dx2));
                interior =
                  arr_add
                    (arr_add (arr_mul a (take (n - 2) f)) (arr_mul b (butlast (tl f))))
                    (arr_mul c (drop 2 f));
                first = fdiv (fsub (f ! 1) (f ! 0)) (Fin (diffx ! 0));
                final = fdiv (fsub (f ! (n - 1)) (f ! (n - 2))) (Fin (last diffx))
            in Inr ([first] @ interior @ [final]))"

text \<open>
  The finite difference of the values \<open>f\<close> on the mesh \<open>x\<close> at index \<open>i\<close>, in plain real
  arithmetic: one-sided at the two ends, and in the interior the second-order formula
  for the left spacing \<open>d1\<close> and the right spacing \<open>d2\<close>.
\<close>

definition finite_difference :: "real list \<Rightarrow> real list \<Rightarrow> nat \<Rightarrow> real" where
  "finite_difference x f i =
     (let n = length f in
      if i = 0 then (f ! 1 - f ! 0) / (x ! 1 - x ! 0)
      else if i = n - 1 then (f ! (n - 1) - f ! (n - 2)) / (x ! (n - 1) - x ! (n - 2))
      else
        let d1 = x ! i - x ! (i - 1);
            d2 = x ! (i + 1) - x ! i
        in (d1\<^sup>2 * f ! (i + 1) + (d2\<^sup>2 - d1\<^sup>2) * f ! i - d2\<^sup>2 * f ! (i - 1)) /
             (d1 * d2 * (d1 + d2)))"

subsection \<open>The initial guesses\<close>

text \<open>Sequencing of steps that may raise.\<close>

definition bind_err :: "np_error + 'a \<Rightarrow> ('a \<Rightarrow> np_error + 'b) \<Rightarrow> np_error + 'b" where
  "bind_err r k = (case r of Inl e \<Rightarrow> Inl e | Inr v \<Rightarrow> k v)"

text \<open>\<^verbatim>\<open>np.zeros((r, c))\<close>, and the row assignments \<^verbatim>\<open>y[i] = row\<close> and \<^verbatim>\<open>y[i] = scalar\<close>.\<close>

definition np_zeros :: "nat \<Rightarrow> nat \<Rightarrow> arr2" where
  "np_zeros r c = replicate r (replicate c (Fin 0))"

definition set_row :: "arr2 \<Rightarrow> nat \<Rightarrow> arr \<Rightarrow> np_error + arr2" where
  "set_row y i row =
     (if length y \<le> i then Inl IndexError
      else if length row \<noteq> length (y ! i) then Inl ValueError
      else Inr (y[i := row]))"

definition set_row_scalar :: "arr2 \<Rightarrow> nat \<Rightarrow> npfloat \<Rightarrow> np_error + arr2" where
  "set_row_scalar y i c =
     (if length y \<le> i then Inl IndexError
      else Inr (y[i := replicate (length (y ! i)) c]))"

text \<open>
  The linear guess of \<^verbatim>\<open>adam-kicman-v1.py\<close> and the \<^verbatim>\<open>George-Zhang\<close> scripts:
  \<^verbatim>\<open>y_init = np.zeros((3, x.size)); y_init[0] = x; y_init[1] = 1.0; y_init[2] = 0.0\<close>.
\<close>

definition y_init_linear :: "real list \<Rightarrow> np_error + arr2" where
  "y_init_linear x =
     bind_err (set_row (np_zeros 3 (length x)) 0 (of_reals x)) (\<lambda>y1.
     bind_err (set_row_scalar y1 1 (Fin 1)) (\<lambda>y2.
     set_row_scalar y2 2 (Fin 0)))"

text \<open>
  The cubic guess of \<^verbatim>\<open>adam-kicman-v2.py\<close>: \<^verbatim>\<open>h_guess = x - (x/x_max)**3\<close>, then
  \<^verbatim>\<open>y_init[0] = h_guess\<close>, \<^verbatim>\<open>y_init[1] = np.gradient(h_guess, x)\<close> and
  \<^verbatim>\<open>y_init[2] = np.gradient(y_init[1], x)\<close>.
\<close>

definition h_guess :: "real \<Rightarrow> real list \<Rightarrow> arr" where
  "h_guess x_max x = arr_sub (of_reals x) (arr_pow (arr_div_scalar (of_reals x) (Fin x_max)) 3)"

definition y_init_cubic :: "real \<Rightarrow> real list \<Rightarrow> np_error + arr2" where
  "y_init_cubic x_max x =
     bind_err (set_row (np_zeros 3 (length x)) 0 (h_guess x_max x)) (\<lambda>y1.
     bind_err (gradient (h_guess x_max x) x) (\<lambda>g1.
     bind_err (set_row y1 1 g1) (\<lambda>y2.
     bind_err (gradient (y2 ! 1) x) (\<lambda>g2.
     set_row y2 2 g2))))"


section \<open>Properties\<close>

subsection \<open>The right-hand side and the boundary residual\<close>

lemma scalar_rhs_nth:
  "i < length h \<Longrightarrow>
   scalar_div_arr c (arr_add_scalar (arr_add (arr_pow h 2) h) e) ! i =
     fdiv c (fadd (fadd (fpow (h ! i) 2) (h ! i)) e)"
  by (simp add: scalar_div_arr_def arr_add_scalar_def arr_add_def arr_pow_def)

text \<open>
  Claim C1.  On a state of three rows \<open>h, h', h''\<close> over \<open>m\<close> mesh points the regularised
  \<^verbatim>\<open>ode_system\<close> returns the rows \<open>h', h'', h'''\<close>, and at every mesh point where \<open>h\<close> is
  the finite value \<open>v\<close> the third row holds \<open>- 0.01 / (v\<^sup>2 + v + eps)\<close>; where that
  denominator is zero the quotient has no value and numpy stores a non-finite one.
  The result depends on \<open>eps\<close> and \<open>y\<close> alone: the mesh \<open>x\<close> is not read.
\<close>

theorem ode_system_rhs:
  assumes "length h = m" and "length hp = m" and "length hpp = m"
  shows "\<exists>d3h. ode_system eps x [h, hp, hpp] = Inr [hp, hpp, d3h] \<and> length d3h = m \<and>
           (\<forall>i<m. \<forall>v. h ! i = Fin v \<longrightarrow>
              d3h ! i = (if v\<^sup>2 + v + eps = 0 then NonFinite
                         else Fin (- 0.01 / (v\<^sup>2 + v + eps))))"
proof -
  let ?d = "scalar_div_arr (Fin (- 0.01)) (arr_add_scalar (arr_add (arr_pow h 2) h) (Fin eps))"
  have len: "length ?d = m"
    using assms by (simp add: scalar_div_arr_def arr_add_scalar_def arr_add_def arr_pow_def)
  have run: "ode_system eps x [h, hp, hpp] = Inr [hp, hpp, ?d]"
    using assms len by (simp add: ode_system_def vstack_def Let_def)
  have pt: "\<forall>i<m. \<forall>v. h ! i = Fin v \<longrightarrow>
              ?d ! i = (if v\<^sup>2 + v + eps = 0 then NonFinite
                         else Fin (- 0.01 / (v\<^sup>2 + v + eps)))"
    using assms by (simp add: scalar_rhs_nth)
  from run len pt show ?thesis by blast
qed

theorem ode_system_rhs_witness:
  "\<exists>d3h. ode_system eps_george_zhang [0, 1] [[Fin 0, Fin 1], [Fin 1, Fin 1], [Fin 0, Fin 0]] =
           Inr [[Fin 1, Fin 1], [Fin 0, Fin 0], d3h] \<and>
         d3h ! 0 = Fin (- 10000) \<and> d3h ! 1 = Fin (- 10000 / 2000001)"
proof -
  obtain d3h where
    run: "ode_system eps_george_zhang [0, 1] [[Fin 0, Fin 1], [Fin 1, Fin 1], [Fin 0, Fin 0]] =
            Inr [[Fin 1, Fin 1], [Fin 0, Fin 0], d3h]"
    and pt: "\<forall>i<2. \<forall>v. [Fin 0, Fin 1] ! i = Fin v \<longrightarrow>
              d3h ! i = (if v\<^sup>2 + v + eps_george_zhang = 0 then NonFinite
                         else Fin (- 0.01 / (v\<^sup>2 + v + eps_george_zhang)))"
    using ode_system_rhs [of "[Fin 0, Fin 1]" 2 "[Fin 1, Fin 1]" "[Fin 0, Fin 0]"
        eps_george_zhang "[0, 1]"]
    by auto
  from pt have "d3h ! 0 = Fin (- 10000)"
    by (simp add: eps_george_zhang_def)
  moreover from pt have "d3h ! 1 = Fin (- 10000 / 2000001)"
    by (simp add: eps_george_zhang_def)
  ultimately show ?thesis using run by blast
qed

text \<open>
  Claim C2.  On finite states \<^verbatim>\<open>bc\<close> returns the three residuals \<open>h(0) - 0\<close>,
  \<open>h'(0) - 1\<close> and \<open>h''(L) - 0\<close>, and the residual vanishes exactly when \<open>h(0) = 0\<close>,
  \<open>h'(0) = 1\<close> and \<open>h''(L) = 0\<close>.
\<close>

theorem bc_residuals:
  "bc [Fin a0, Fin a1, Fin a2] [Fin b0, Fin b1, Fin b2] =
     Inr [Fin (a0 - 0), Fin (a1 - 1), Fin (b2 - 0)] \<and>
   (bc [Fin a0, Fin a1, Fin a2] [Fin b0, Fin b1, Fin b2] = Inr [Fin 0, Fin 0, Fin 0]
      \<longleftrightarrow> a0 = 0 \<and> a1 = 1 \<and> b2 = 0)"
  by (simp add: bc_def)

text \<open>
  Claim C3.  The right-hand sides of \<^verbatim>\<open>adam-kicman-v1.py\<close> and
  \<^verbatim>\<open>Vatsal_SolutionChatGPT.py\<close> have no regularisation.  At the state \<open>h = 0\<close>,
  \<open>h' = 1\<close>, \<open>h'' = 0\<close>, which is the first column of the initial guess of the one and
  the initial condition of the other, they divide by zero; the regularised
  \<^verbatim>\<open>ode_system\<close> of \<^verbatim>\<open>adam-kicman-v2.py\<close> returns a finite value there.
\<close>

theorem unregularised_rhs_divides_by_zero:
  "ode_system_ak1 [0] [[Fin 0], [Fin 1], [Fin 0]] = Inr [[Fin 1], [Fin 0], [NonFinite]] \<and>
   ode_system_vatsal 0 [Fin 0, Fin 1, Fin 0] = Inr [Fin 1, Fin 0, NonFinite] \<and>
   ode_system eps_adam_kicman_v2 [0] [[Fin 0], [Fin 1], [Fin 0]] =
     Inr [[Fin 1], [Fin 0], [Fin (- 100000000)]]"
  by (simp add: ode_system_ak1_def ode_system_vatsal_def ode_system_def vstack_def
      scalar_div_arr_def arr_add_scalar_def arr_add_def arr_pow_def eps_adam_kicman_v2_def)



subsection \<open>The closed-form helpers\<close>

lemma h_prime_deriv:
  assumes "h\<^sup>2 + h \<noteq> 0"
  shows "((\<lambda>t. - 0.01 / (t\<^sup>2 + t)) has_real_derivative 0.01 * (2 * h + 1) / (h\<^sup>2 + h)\<^sup>2) (at h)"
proof -
  have d1: "((\<lambda>t. t\<^sup>2 + t) has_real_derivative 2 * h + 1) (at h)"
    by (auto intro!: derivative_eq_intros)
  have d0: "((\<lambda>t. - 0.01) has_real_derivative 0) (at h)"
    by (rule DERIV_const)
  have eq: "(0 * (h\<^sup>2 + h) - (- 0.01) * (2 * h + 1)) / ((h\<^sup>2 + h) * (h\<^sup>2 + h)) =
            0.01 * (2 * h + 1) / (h\<^sup>2 + h)\<^sup>2" for c :: real
    by (simp add: power2_eq_square[of "h\<^sup>2 + h"])
  from DERIV_divide [OF d0 d1 assms] show ?thesis
    unfolding eq .
qed

text \<open>
  Claim C9.  Wherever \<open>h\<^sup>2 + h \<noteq> 0\<close>, \<^verbatim>\<open>h_prime\<close> is the finite function
  \<open>t \<mapsto> - 0.01 / (t\<^sup>2 + t)\<close>, and \<^verbatim>\<open>h_double_prime\<close> at \<open>h\<close> is the derivative of that
  function at \<open>h\<close> times its value at \<open>h\<close>, that is \<open>- 0.0001 (2 h + 1) / (h\<^sup>2 + h)\<^sup>3\<close>.
\<close>

theorem h_double_prime_chain_rule:
  assumes "h\<^sup>2 + h \<noteq> 0"
  shows "(\<forall>t. t\<^sup>2 + t \<noteq> 0 \<longrightarrow> h_prime (Fin t) = Fin (- 0.01 / (t\<^sup>2 + t))) \<and>
         (\<exists>D. ((\<lambda>t. - 0.01 / (t\<^sup>2 + t)) has_real_derivative D) (at h) \<and>
              h_double_prime (Fin h) = Fin (D * (- 0.01 / (h\<^sup>2 + h))) \<and>
              h_double_prime (Fin h) = Fin (- 0.0001 * (2 * h + 1) / (h\<^sup>2 + h) ^ 3))"
proof -
  have a: "\<forall>t. t\<^sup>2 + t \<noteq> 0 \<longrightarrow> h_prime (Fin t) = Fin (- 0.01 / (t\<^sup>2 + t))"
    by (simp add: h_prime_def)
  have b: "h_double_prime (Fin h) = Fin (- 0.0001 * (2 * h + 1) / (h\<^sup>2 + h) ^ 3)"
    using assms by (simp add: h_double_prime_def)
  have c: "- 0.0001 * (2 * h + 1) / (h\<^sup>2 + h) ^ 3 =
           (0.01 * (2 * h + 1) / (h\<^sup>2 + h)\<^sup>2) * (- 0.01 / (h\<^sup>2 + h))"
    by (simp add: power2_eq_square[of "h\<^sup>2 + h"] power3_eq_cube[of "h\<^sup>2 + h"])
  have d: "h_double_prime (Fin h) =
           Fin ((0.01 * (2 * h + 1) / (h\<^sup>2 + h)\<^sup>2) * (- 0.01 / (h\<^sup>2 + h)))"
    using b c by simp
  from a b d h_prime_deriv [OF assms] show ?thesis by blast
qed

theorem h_double_prime_chain_rule_witness:
  "h_prime (Fin 1) = Fin (- 0.005) \<and> h_double_prime (Fin 1) = Fin (- 0.0000375)"
  using h_double_prime_chain_rule [of 1] by auto

lemma theta_cubed_Fin:
  "0 < t \<Longrightarrow> theta_cubed (Fin t) = Fin (1 + 0.03 * ln (exp 1 * t))"
  by (simp add: theta_cubed_def)

lemma theta_deriv_raw:
  assumes "0 < x" and "0 < 1 + 0.03 * ln (exp 1 * x)"
  shows "((\<lambda>t. (1 + 0.03 * ln (exp 1 * t)) powr (1 / 3)) has_real_derivative
           (1 / 3) * (1 + 0.03 * ln (exp 1 * x)) powr (1 / 3 - 1) * (0.03 * (exp 1 / (exp 1 * x)))) (at x)"
  using assms by (auto intro!: derivative_eq_intros)

lemma cube_root_facts:
  fixes c :: real
  assumes "0 < c"
  shows "0 < c powr (1 / 3)" and "(c powr (1 / 3)) ^ 3 = c"
    and "c powr (1 / 3 - 1) = c powr (1 / 3) / c"
proof -
  show pos: "0 < c powr (1 / 3)"
    using assms by simp
  have "(c powr (1 / 3)) ^ 3 = (c powr (1 / 3)) powr (real 3)"
    using pos by (simp only: powr_realpow)
  also have "\<dots> = c powr 1"
    by (simp add: powr_powr)
  finally show "(c powr (1 / 3)) ^ 3 = c"
    using assms by simp
  show "c powr (1 / 3 - 1) = c powr (1 / 3) / c"
    using assms powr_diff [of c "1 / 3" 1] by simp
qed

lemma theta_deriv:
  assumes "0 < x" and "0 < 1 + 0.03 * ln (exp 1 * x)"
  shows "((\<lambda>t. (1 + 0.03 * ln (exp 1 * t)) powr (1 / 3)) has_real_derivative
            0.01 / (x * ((1 + 0.03 * ln (exp 1 * x)) powr (1 / 3))\<^sup>2)) (at x)"
proof -
  define c where "c = 1 + 0.03 * ln (exp 1 * x)"
  define th where "th = c powr (1 / 3)"
  have cpos: "0 < c" using assms by (simp add: c_def)
  have thpos: "0 < th" and cube: "th ^ 3 = c" and low: "c powr (1 / 3 - 1) = th / c"
    using cube_root_facts [OF cpos] by (simp_all add: th_def)
  have "(1 / 3) * (th / c) * (0.03 * (exp 1 / (exp 1 * x))) = 0.01 / (x * th\<^sup>2)"
  proof -
    have "th / c = 1 / th\<^sup>2"
      using thpos by (simp add: cube [symmetric] power2_eq_square power3_eq_cube)
    moreover have "exp 1 / (exp 1 * x) = 1 / x"
      by simp
    ultimately show ?thesis by simp
  qed
  with theta_deriv_raw [OF assms] low show ?thesis
    by (simp only: c_def [symmetric] th_def [symmetric])
qed

lemma theta_Fin:
  assumes "0 < t" and "0 < 1 + 0.03 * ln (exp 1 * t)"
  shows "theta (Fin t) = Fin ((1 + 0.03 * ln (exp 1 * t)) powr (1 / 3))"
  using assms by (simp add: theta_def theta_cubed_def)

text \<open>
  Claim C8.  For \<open>x > 0\<close> with \<^verbatim>\<open>theta_cubed(x)\<close> positive, \<^verbatim>\<open>theta\<close> is the finite function
  \<open>t \<mapsto> (1 + 0.03 ln (e t)) powr (1/3)\<close> around \<open>x\<close>, \<^verbatim>\<open>dtheta_dx(x)\<close> is the derivative of
  that function at \<open>x\<close>, and \<open>3 theta(x)\<^sup>2 x dtheta_dx(x) = 0.03\<close>.
\<close>

theorem dtheta_dx_is_derivative:
  assumes "0 < x" and "theta_cubed (Fin x) = Fin c" and "0 < c"
  shows "(\<forall>t. 0 < t \<longrightarrow> 0 < 1 + 0.03 * ln (exp 1 * t) \<longrightarrow>
            theta (Fin t) = Fin ((1 + 0.03 * ln (exp 1 * t)) powr (1 / 3))) \<and>
         (\<exists>th D. theta (Fin x) = Fin th \<and>
            ((\<lambda>t. (1 + 0.03 * ln (exp 1 * t)) powr (1 / 3)) has_real_derivative D) (at x) \<and>
            dtheta_dx (Fin x) = Fin D \<and> 3 * th\<^sup>2 * x * D = 0.03)"
proof -
  define th where "th = (1 + 0.03 * ln (exp 1 * x)) powr (1 / 3)"
  have c: "c = 1 + 0.03 * ln (exp 1 * x)"
    using assms(1,2) by (simp add: theta_cubed_Fin)
  then have cpos: "0 < 1 + 0.03 * ln (exp 1 * x)"
    using assms(3) by simp
  have thx: "theta (Fin x) = Fin th"
    unfolding th_def by (rule theta_Fin [OF assms(1) cpos])
  have thpos: "0 < th"
    using cpos by (simp add: th_def)
  have der: "((\<lambda>t. (1 + 0.03 * ln (exp 1 * t)) powr (1 / 3)) has_real_derivative
               0.01 / (x * th\<^sup>2)) (at x)"
    unfolding th_def by (rule theta_deriv [OF assms(1) cpos])
  have dth: "dtheta_dx (Fin x) = Fin (0.01 / (x * th\<^sup>2))"
    using assms(1) thpos by (simp add: dtheta_dx_def thx)
  have prod: "3 * th\<^sup>2 * x * (0.01 / (x * th\<^sup>2)) = 0.03"
    using assms(1) thpos by simp
  from thx der dth prod theta_Fin show ?thesis by blast
qed

theorem dtheta_dx_is_derivative_witness:
  "\<exists>th D. theta (Fin 1) = Fin th \<and> dtheta_dx (Fin 1) = Fin D \<and> 3 * th\<^sup>2 * 1 * D = 0.03"
proof -
  have "theta_cubed (Fin 1) = Fin 1.03"
    by (simp add: theta_cubed_def)
  from dtheta_dx_is_derivative [OF _ this] show ?thesis
    by auto
qed

subsection \<open>Finite differences\<close>

lemma length_np_diff: "length (np_diff x) = length x - 1"
  by (simp add: np_diff_def)

lemma np_diff_nth: "Suc i < length x \<Longrightarrow> np_diff x ! i = x ! Suc i - x ! i"
  by (simp add: np_diff_def nth_tl nth_butlast)

lemma np_diff_pos:
  assumes "sorted_wrt (<) x" and "Suc i < length x"
  shows "0 < np_diff x ! i"
  using assms by (simp add: np_diff_nth sorted_wrt_nth_less)

lemma sandwich_nth:
  assumes "length mid = n - 2" and "2 \<le> n" and "i < n"
  shows "([a] @ mid @ [b]) ! i = (if i = 0 then a else if i = n - 1 then b else mid ! (i - 1))"
  using assms by (auto simp: nth_append nth_Cons')

lemma three_point_common_denominator:
  fixes d1 d2 s :: real
  assumes "s \<noteq> 0" and "d1 \<noteq> 0" and "d2 \<noteq> 0"
  shows "- 1 * d2 / (d1 * s) * g0 + (d2 - d1) / (d1 * d2) * g1 + d1 / (d2 * s) * g2 =
         (d1 * d1 * g2 + (d2 - d1) * s * g1 - d2 * d2 * g0) / (d1 * d2 * s)"
  using assms by (simp add: field_simps)

lemma three_point_algebra:
  fixes d1 d2 :: real
  assumes "0 < d1" and "0 < d2"
  shows "- 1 * d2 / (d1 * (d1 + d2)) * g0 + (d2 - d1) / (d1 * d2) * g1 + d1 / (d2 * (d1 + d2)) * g2 =
         (d1\<^sup>2 * g2 + (d2\<^sup>2 - d1\<^sup>2) * g1 - d2\<^sup>2 * g0) / (d1 * d2 * (d1 + d2))"
proof -
  have nz: "d1 + d2 \<noteq> 0" "d1 \<noteq> 0" "d2 \<noteq> 0" using assms by auto
  have "(d2 - d1) * (d1 + d2) = d2\<^sup>2 - d1\<^sup>2"
    by (simp add: algebra_simps power2_eq_square)
  with three_point_common_denominator [OF nz, of g0 g1 g2] show ?thesis
    by (simp only: power2_eq_square)
qed

lemma central_algebra:
  fixes d :: real
  assumes "d \<noteq> 0"
  shows "(g2 - g0) / (2 * d) = (d\<^sup>2 * g2 + (d\<^sup>2 - d\<^sup>2) * g1 - d\<^sup>2 * g0) / (d * d * (d + d))"
  using assms by (simp add: field_simps power2_eq_square)


lemma interior_uniform_nth:
  assumes "length g = n" and "j < n - 2" and "dx \<noteq> 0"
  shows "arr_div_scalar (arr_sub (drop 2 (of_reals g)) (take (n - 2) (of_reals g))) (Fin (2 * dx)) ! j =
         Fin ((g ! (j + 2) - g ! j) / (2 * dx))"
  using assms by (simp add: arr_div_scalar_def arr_sub_def of_reals_def add.commute)

lemma interior_general_nth:
  assumes "length g = n" and "length D = n - 1" and "j < n - 2"
    and "0 < D ! j" and "0 < D ! (j + 1)"
  shows "arr_add
           (arr_add
              (arr_mul
                 (arr_div (map (fmul (Fin (- 1))) (of_reals (tl D)))
                    (arr_mul (of_reals (butlast D)) (arr_add (of_reals (butlast D)) (of_reals (tl D)))))
                 (take (n - 2) (of_reals g)))
              (arr_mul
                 (arr_div (arr_sub (of_reals (tl D)) (of_reals (butlast D)))
                    (arr_mul (of_reals (butlast D)) (of_reals (tl D))))
                 (butlast (tl (of_reals g)))))
           (arr_mul
              (arr_div (of_reals (butlast D))
                 (arr_mul (of_reals (tl D)) (arr_add (of_reals (butlast D)) (of_reals (tl D)))))
              (drop 2 (of_reals g))) ! j =
         Fin (- 1 * D ! (j + 1) / (D ! j * (D ! j + D ! (j + 1))) * g ! j +
              (D ! (j + 1) - D ! j) / (D ! j * D ! (j + 1)) * g ! (j + 1) +
              D ! j / (D ! (j + 1) * (D ! j + D ! (j + 1))) * g ! (j + 2))"
proof -
  have s: "D ! j + D ! (j + 1) \<noteq> 0" "D ! j \<noteq> 0" "D ! (j + 1) \<noteq> 0"
    using assms(4,5) by auto
  have t: "tl D ! j = D ! (j + 1)" "butlast D ! j = D ! j"
    using assms(2,3) by (simp_all add: nth_tl nth_butlast)
  have u: "butlast (tl g) ! j = g ! (j + 1)"
    using assms(1,3) by (simp add: nth_tl nth_butlast)
  show ?thesis
    using assms(1,2,3) s t u
    by (simp add: arr_add_def arr_mul_def arr_div_def arr_sub_def of_reals_def
        map_butlast [symmetric] map_tl [symmetric] add.commute)
qed

lemma length_of_reals [simp]: "length (of_reals g) = length g"
  by (simp add: of_reals_def)

lemma of_reals_nth [simp]: "i < length g \<Longrightarrow> of_reals g ! i = Fin (g ! i)"
  by (simp add: of_reals_def)

lemma fd_first: "finite_difference x g 0 = (g ! 1 - g ! 0) / (x ! 1 - x ! 0)"
  by (simp add: finite_difference_def)

lemma fd_last:
  "2 \<le> length g \<Longrightarrow>
   finite_difference x g (length g - 1) =
     (g ! (length g - 1) - g ! (length g - 2)) / (x ! (length g - 1) - x ! (length g - 2))"
  by (simp add: finite_difference_def Let_def)

lemma fd_mid:
  "0 < i \<Longrightarrow> i \<noteq> length g - 1 \<Longrightarrow>
   finite_difference x g i =
     ((x ! i - x ! (i - 1))\<^sup>2 * g ! (i + 1) +
      ((x ! (i + 1) - x ! i)\<^sup>2 - (x ! i - x ! (i - 1))\<^sup>2) * g ! i -
      (x ! (i + 1) - x ! i)\<^sup>2 * g ! (i - 1)) /
     ((x ! i - x ! (i - 1)) * (x ! (i + 1) - x ! i) * ((x ! i - x ! (i - 1)) + (x ! (i + 1) - x ! i)))"
  by (simp add: finite_difference_def Let_def)

lemma last_np_diff:
  assumes "2 \<le> length x"
  shows "last (np_diff x) = np_diff x ! (length x - 2)"
proof -
  have "length (np_diff x) \<noteq> 0" using assms by (simp add: length_np_diff)
  then have "np_diff x \<noteq> []" by simp
  then have "last (np_diff x) = np_diff x ! (length (np_diff x) - 1)" by (rule last_conv_nth)
  also have "length (np_diff x) - 1 = length x - 2" by (simp add: length_np_diff)
  finally show ?thesis .
qed

lemma gradient_uniform_run:
  assumes "length x = length f" and "2 \<le> length f"
    and "list_all (\<lambda>d. d = np_diff x ! 0) (np_diff x)"
  shows "gradient f x =
           Inr ([fdiv (fsub (f ! 1) (f ! 0)) (Fin (np_diff x ! 0))] @
                arr_div_scalar (arr_sub (drop 2 f) (take (length f - 2) f))
                  (Fin (2 * np_diff x ! 0)) @
                [fdiv (fsub (f ! (length f - 1)) (f ! (length f - 2))) (Fin (np_diff x ! 0))])"
  using assms unfolding gradient_def Let_def by simp


lemma gradient_general_run:
  assumes "length x = length f" and "2 \<le> length f"
    and "\<not> list_all (\<lambda>d. d = np_diff x ! 0) (np_diff x)"
  shows "gradient f x =
           Inr ([fdiv (fsub (f ! 1) (f ! 0)) (Fin (np_diff x ! 0))] @
                arr_add
                  (arr_add
                     (arr_mul
                        (arr_div (map (fmul (Fin (- 1))) (of_reals (tl (np_diff x))))
                           (arr_mul (of_reals (butlast (np_diff x)))
                              (arr_add (of_reals (butlast (np_diff x))) (of_reals (tl (np_diff x))))))
                        (take (length f - 2) f))
                     (arr_mul
                        (arr_div (arr_sub (of_reals (tl (np_diff x))) (of_reals (butlast (np_diff x))))
                           (arr_mul (of_reals (butlast (np_diff x))) (of_reals (tl (np_diff x)))))
                        (butlast (tl f))))
                  (arr_mul
                     (arr_div (of_reals (butlast (np_diff x)))
                        (arr_mul (of_reals (tl (np_diff x)))
                           (arr_add (of_reals (butlast (np_diff x))) (of_reals (tl (np_diff x))))))
                     (drop 2 f)) @
                [fdiv (fsub (f ! (length f - 1)) (f ! (length f - 2))) (Fin (last (np_diff x)))])"
  using assms unfolding gradient_def Let_def by simp

lemma sandwich_is_finite_difference:
  assumes n2: "2 \<le> length g" and lx: "length x = length g" and srt: "sorted_wrt (<) x"
    and lmid: "length mid = length g - 2"
    and mid: "\<And>i. 0 < i \<Longrightarrow> i < length g - 1 \<Longrightarrow> mid ! (i - 1) = Fin (finite_difference x g i)"
    and d0: "d0 = x ! 1 - x ! 0"
    and dn: "dn = x ! (length g - 1) - x ! (length g - 2)"
  shows "[fdiv (fsub (of_reals g ! 1) (of_reals g ! 0)) (Fin d0)] @ mid @
         [fdiv (fsub (of_reals g ! (length g - 1)) (of_reals g ! (length g - 2))) (Fin dn)] =
         of_reals (map (finite_difference x g) [0..<length g])"
    (is "?out = ?rhs")
proof (rule nth_equalityI)
  show len: "length ?out = length ?rhs"
    using n2 lmid by simp
  fix i assume "i < length ?out"
  then have i: "i < length g" using len by simp
  have idx: "0 < length g" "1 < length g" "length g - 1 < length g" "length g - 2 < length g"
    using n2 by auto
  have rhs: "?rhs ! i = Fin (finite_difference x g i)"
    using i by simp
  have d0pos: "d0 \<noteq> 0"
    using sorted_wrt_nth_less [OF srt, of 0 1] idx(2) lx by (simp add: d0)
  have "x ! (length g - 2) < x ! (length g - 1)"
    using sorted_wrt_nth_less [OF srt, of "length g - 2" "length g - 1"] n2 lx by auto
  then have dnpos: "dn \<noteq> 0"
    by (simp add: dn)
  consider "i = 0" | "i \<noteq> 0" "i = length g - 1" | "0 < i" "i < length g - 1"
    using i by linarith
  then have "?out ! i = Fin (finite_difference x g i)"
  proof cases
    case 1
    have "?out ! 0 = fdiv (fsub (of_reals g ! 1) (of_reals g ! 0)) (Fin d0)"
      by simp
    also have "\<dots> = Fin ((g ! 1 - g ! 0) / d0)"
      unfolding of_reals_nth [OF idx(1)] of_reals_nth [OF idx(2)] using d0pos by simp
    also have "(g ! 1 - g ! 0) / d0 = finite_difference x g i"
      unfolding 1 d0 by (rule fd_first [symmetric])
    finally show ?thesis
      unfolding 1 .
  next
    case 2
    have "?out ! i = fdiv (fsub (of_reals g ! (length g - 1)) (of_reals g ! (length g - 2))) (Fin dn)"
      using sandwich_nth [OF lmid n2 i] 2 by simp
    also have "\<dots> = Fin ((g ! (length g - 1) - g ! (length g - 2)) / dn)"
      unfolding of_reals_nth [OF idx(3)] of_reals_nth [OF idx(4)] using dnpos by simp
    also have "(g ! (length g - 1) - g ! (length g - 2)) / dn = finite_difference x g i"
      unfolding 2(2) dn by (rule fd_last [OF n2, symmetric])
    finally show ?thesis .
  next
    case 3
    have "?out ! i = mid ! (i - 1)"
      using sandwich_nth [OF lmid n2 i] 3 by simp
    then show ?thesis
      using mid [OF 3] by simp
  qed
  with rhs show "?out ! i = ?rhs ! i" by simp
qed


lemma gradient_finite:
  assumes srt: "sorted_wrt (<) x" and lx: "length g = length x" and n2: "2 \<le> length x"
  shows "gradient (of_reals g) x = Inr (of_reals (map (finite_difference x g) [0..<length g]))"
proof -
  let ?D = "np_diff x"
  have n2g: "2 \<le> length g" and lxg: "length x = length g"
    using lx n2 by simp_all
  have lenD: "length ?D = length g - 1"
    by (simp add: length_np_diff lx)
  have Dnth: "?D ! i = x ! Suc i - x ! i" if "Suc i < length g" for i
    using that by (simp add: np_diff_nth lx)
  have Dpos: "0 < ?D ! i" if "Suc i < length g" for i
    using that srt by (simp add: np_diff_pos lx)
  have d0: "?D ! 0 = x ! 1 - x ! 0"
    using Dnth [of 0] n2g by simp
  have dn: "?D ! (length g - 2) = x ! (length g - 1) - x ! (length g - 2)"
  proof -
    have "Suc (length g - 2) = length g - 1" using n2g by linarith
    with Dnth [of "length g - 2"] n2g show ?thesis by simp
  qed
  have spacing: "?D ! (i - 1) = x ! i - x ! (i - 1)" "?D ! i = x ! (i + 1) - x ! i"
    "0 < ?D ! (i - 1)" "0 < ?D ! i"
    if "0 < i" "i < length g - 1" for i
    using that Dnth [of "i - 1"] Dnth [of i] Dpos [of "i - 1"] Dpos [of i] by simp_all
  have fdD: "finite_difference x g i =
      ((?D ! (i - 1))\<^sup>2 * g ! (i + 1) + ((?D ! i)\<^sup>2 - (?D ! (i - 1))\<^sup>2) * g ! i -
       (?D ! i)\<^sup>2 * g ! (i - 1)) /
      (?D ! (i - 1) * ?D ! i * (?D ! (i - 1) + ?D ! i))"
    if i: "0 < i" "i < length g - 1" for i
  proof -
    have ne: "i \<noteq> length g - 1" using i by simp
    show ?thesis
      unfolding spacing(1,2) [OF i] by (rule fd_mid [OF i(1) ne])
  qed
  show ?thesis
  proof (cases "list_all (\<lambda>d. d = ?D ! 0) ?D")
    case True
    have Dall: "?D ! i = ?D ! 0" if "Suc i < length g" for i
    proof -
      have "i < length ?D" using that lenD by linarith
      with True show ?thesis unfolding list_all_length by blast
    qed
    define mid where "mid = arr_div_scalar
        (arr_sub (drop 2 (of_reals g)) (take (length g - 2) (of_reals g))) (Fin (2 * ?D ! 0))"
    have lmid: "length mid = length g - 2"
      by (simp add: mid_def arr_div_scalar_def arr_sub_def)
    have d0nz: "?D ! 0 \<noteq> 0"
      using Dpos [of 0] n2g by simp
    have dn': "?D ! 0 = x ! (length g - 1) - x ! (length g - 2)"
      using Dall [of "length g - 2"] dn n2g by simp
    have midnth: "mid ! (i - 1) = Fin (finite_difference x g i)"
      if i: "0 < i" "i < length g - 1" for i
    proof -
      have j: "i - 1 < length g - 2" using i by linarith
      have eq: "?D ! (i - 1) = ?D ! 0" "?D ! i = ?D ! 0"
        using Dall [of "i - 1"] Dall [of i] i by simp_all
      have "mid ! (i - 1) = Fin ((g ! (i - 1 + 2) - g ! (i - 1)) / (2 * ?D ! 0))"
        unfolding mid_def by (rule interior_uniform_nth [OF refl j d0nz])
      also have "i - 1 + 2 = i + 1" using i by simp
      also have "(g ! (i + 1) - g ! (i - 1)) / (2 * ?D ! 0) =
          ((?D ! 0)\<^sup>2 * g ! (i + 1) + ((?D ! 0)\<^sup>2 - (?D ! 0)\<^sup>2) * g ! i - (?D ! 0)\<^sup>2 * g ! (i - 1)) /
          (?D ! 0 * ?D ! 0 * (?D ! 0 + ?D ! 0))"
        by (rule central_algebra [OF d0nz])
      also have "\<dots> = finite_difference x g i"
        by (simp only: fdD [OF i] eq)
      finally show ?thesis .
    qed
    have "gradient (of_reals g) x =
        Inr ([fdiv (fsub (of_reals g ! 1) (of_reals g ! 0)) (Fin (?D ! 0))] @ mid @
             [fdiv (fsub (of_reals g ! (length g - 1)) (of_reals g ! (length g - 2))) (Fin (?D ! 0))])"
      using gradient_uniform_run [of x "of_reals g"] True lxg n2g by (simp add: mid_def)
    then show ?thesis
      using sandwich_is_finite_difference [OF n2g lxg srt lmid midnth d0 dn'] by simp
  next
    case False
    define mid where "mid =
        arr_add
          (arr_add
             (arr_mul
                (arr_div (map (fmul (Fin (- 1))) (of_reals (tl ?D)))
                   (arr_mul (of_reals (butlast ?D)) (arr_add (of_reals (butlast ?D)) (of_reals (tl ?D)))))
                (take (length g - 2) (of_reals g)))
             (arr_mul
                (arr_div (arr_sub (of_reals (tl ?D)) (of_reals (butlast ?D)))
                   (arr_mul (of_reals (butlast ?D)) (of_reals (tl ?D))))
                (butlast (tl (of_reals g)))))
          (arr_mul
             (arr_div (of_reals (butlast ?D))
                (arr_mul (of_reals (tl ?D)) (arr_add (of_reals (butlast ?D)) (of_reals (tl ?D)))))
             (drop 2 (of_reals g)))"
    have lmid: "length mid = length g - 2"
      using lenD by (simp add: mid_def arr_add_def arr_mul_def arr_div_def arr_sub_def)
    have dlast: "last ?D = x ! (length g - 1) - x ! (length g - 2)"
      using last_np_diff [OF n2] dn by (simp add: lx)
    have midnth: "mid ! (i - 1) = Fin (finite_difference x g i)"
      if i: "0 < i" "i < length g - 1" for i
    proof -
      have j: "i - 1 < length g - 2" using i by linarith
      have s: "i - 1 + 1 = i" "i - 1 + 2 = i + 1" using i by simp_all
      have "mid ! (i - 1) =
          Fin (- 1 * ?D ! (i - 1 + 1) / (?D ! (i - 1) * (?D ! (i - 1) + ?D ! (i - 1 + 1))) * g ! (i - 1) +
               (?D ! (i - 1 + 1) - ?D ! (i - 1)) / (?D ! (i - 1) * ?D ! (i - 1 + 1)) * g ! (i - 1 + 1) +
               ?D ! (i - 1) / (?D ! (i - 1 + 1) * (?D ! (i - 1) + ?D ! (i - 1 + 1))) * g ! (i - 1 + 2))"
        unfolding mid_def
        by (rule interior_general_nth [OF refl lenD j])
           (simp_all only: s spacing(3,4) [OF i])
      also have "\<dots> = Fin (finite_difference x g i)"
        unfolding s fdD [OF i]
        by (simp only: three_point_algebra [OF spacing(3,4) [OF i]])
      finally show ?thesis .
    qed
    have "gradient (of_reals g) x =
        Inr ([fdiv (fsub (of_reals g ! 1) (of_reals g ! 0)) (Fin (?D ! 0))] @ mid @
             [fdiv (fsub (of_reals g ! (length g - 1)) (of_reals g ! (length g - 2))) (Fin (last ?D))])"
      using gradient_general_run [of x "of_reals g"] False lxg n2g by (simp add: mid_def)
    then show ?thesis
      using sandwich_is_finite_difference [OF n2g lxg srt lmid midnth d0 dlast] by simp
  qed
qed

subsection \<open>Meshes\<close>

lemma length_linspace [simp]: "length (linspace a b n) = n"
  by (simp add: linspace_def Let_def)

lemma linspace_nth:
  assumes "2 \<le> n" and "i < n"
  shows "linspace a b n ! i = (if i = n - 1 then b else real i * ((b - a) / real (n - 1)) + a)"
  using assms by (simp add: linspace_def Let_def nth_list_update)

lemma linspace_nth_uniform:
  assumes "2 \<le> n" and "i < n"
  shows "linspace 0 L n ! i = real i * (L / real (n - 1))"
proof (cases "i = n - 1")
  case True
  have "real (n - 1) \<noteq> 0" using assms(1) by simp
  then have "real (n - 1) * (L / real (n - 1)) = L" by simp
  with True linspace_nth [OF assms, of 0 L] show ?thesis by simp
next
  case False
  with linspace_nth [OF assms, of 0 L] show ?thesis by simp
qed


lemma linspace_bounds:
  assumes "0 \<le> L" and "t \<in> set (linspace 0 L n)"
  shows "0 \<le> t \<and> t \<le> L"
proof (cases "2 \<le> n")
  case True
  from assms(2) obtain i where i: "i < n" and t: "t = linspace 0 L n ! i"
    by (auto simp: in_set_conv_nth)
  have n1: "0 < real (n - 1)" using True by simp
  have "real i \<le> real (n - 1)" using i by simp
  then have "real i * L \<le> real (n - 1) * L"
    using assms(1) by (rule mult_right_mono)
  then have "real i * (L / real (n - 1)) \<le> L"
    using n1 by (simp add: field_simps)
  moreover have "0 \<le> real i * (L / real (n - 1))"
    using assms(1) by simp
  ultimately show ?thesis
    by (simp add: t linspace_nth_uniform [OF True i])
next
  case False
  then have "n = 0 \<or> n = 1" by linarith
  with assms show ?thesis by (auto simp: linspace_def)
qed


subsection \<open>The initial guesses\<close>

lemma h_guess_finite:
  assumes "L \<noteq> 0"
  shows "h_guess L x = of_reals (map (\<lambda>t. t - (t / L) ^ 3) x)"
  using assms
  by (simp add: h_guess_def arr_sub_def arr_pow_def arr_div_scalar_def of_reals_def
      zip_map_map map_zip_map list_eq_iff_nth_eq)

lemma y_init_linear_eq:
  "y_init_linear x =
     Inr [of_reals x, replicate (length x) (Fin 1), replicate (length x) (Fin 0)]"
  by (simp add: y_init_linear_def bind_err_def set_row_def set_row_scalar_def np_zeros_def
      numeral_3_eq_3)

lemma y_init_cubic_eq:
  assumes srt: "sorted_wrt (<) x" and n2: "2 \<le> length x" and L: "L \<noteq> 0"
  shows "y_init_cubic L x =
     Inr [of_reals (map (\<lambda>t. t - (t / L) ^ 3) x),
          of_reals (map (finite_difference x (map (\<lambda>t. t - (t / L) ^ 3) x)) [0..<length x]),
          of_reals (map (finite_difference x
             (map (finite_difference x (map (\<lambda>t. t - (t / L) ^ 3) x)) [0..<length x]))
             [0..<length x])]"
proof -
  define h where "h = map (\<lambda>t. t - (t / L) ^ 3) x"
  define h1 where "h1 = map (finite_difference x h) [0..<length x]"
  define h2 where "h2 = map (finite_difference x h1) [0..<length x]"
  have lh: "length h = length x" and lh1: "length h1 = length x"
    by (simp_all add: h_def h1_def)
  have hg: "h_guess L x = of_reals h"
    unfolding h_def by (rule h_guess_finite [OF L])
  have g1: "gradient (of_reals h) x = Inr (of_reals h1)"
    using gradient_finite [OF srt lh n2] by (simp add: h1_def lh)
  have g2: "gradient (of_reals h1) x = Inr (of_reals h2)"
    using gradient_finite [OF srt lh1 n2] by (simp add: h2_def lh1)
  have "y_init_cubic L x = Inr [of_reals h, of_reals h1, of_reals h2]"
    by (simp add: y_init_cubic_def hg g1 g2 bind_err_def set_row_def np_zeros_def lh lh1
        h2_def numeral_3_eq_3)
  then show ?thesis
    by (simp only: h_def h1_def h2_def)
qed








text \<open>
  Claim C5.  On a strictly increasing mesh \<open>x\<close> of at least two points, the linear guess
  has the rows \<open>x\<close>, all ones and all zeros, and the cubic guess (for \<open>L \<noteq> 0\<close>) has the
  rows \<open>h\<close>, \<open>h1\<close>, \<open>h2\<close> where \<open>h\<close> is \<open>t - (t / L)\<^sup>3\<close> at every mesh point, \<open>h1\<close> is the
  finite difference of \<open>h\<close> on the mesh and \<open>h2\<close> the finite difference of \<open>h1\<close>.
\<close>

theorem initial_guesses:
  assumes "sorted_wrt (<) x" and "2 \<le> length x" and "L \<noteq> 0"
  shows "y_init_linear x =
           Inr [of_reals x, replicate (length x) (Fin 1), replicate (length x) (Fin 0)] \<and>
         (\<exists>h h1 h2. y_init_cubic L x = Inr [of_reals h, of_reals h1, of_reals h2] \<and>
            h = map (\<lambda>t. t - (t / L) ^ 3) x \<and>
            h1 = map (finite_difference x h) [0..<length x] \<and>
            h2 = map (finite_difference x h1) [0..<length x])"
  using y_init_linear_eq [of x] y_init_cubic_eq [OF assms] by blast

theorem initial_guesses_witness:
  "y_init_linear [0, 1, 2] =
     Inr [[Fin 0, Fin 1, Fin 2], [Fin 1, Fin 1, Fin 1], [Fin 0, Fin 0, Fin 0]] \<and>
   y_init_cubic 2 [0, 1, 2] =
     Inr [[Fin 0, Fin (7 / 8), Fin 1], [Fin (7 / 8), Fin (1 / 2), Fin (1 / 8)],
          [Fin (- 3 / 8), Fin (- 3 / 8), Fin (- 3 / 8)]]"
proof -
  have u: "[0..<3] = [0, 1, 2]" by (simp add: upt_rec)
  have "sorted_wrt (<) [0, 1, 2 :: real]" and "2 \<le> length [0, 1, 2 :: real]" and "(2::real) \<noteq> 0"
    by simp_all
  from initial_guesses [OF this] show ?thesis
    by (simp add: of_reals_def finite_difference_def u numeral_3_eq_3)
qed




lemma cubic_nonneg:
  fixes L t :: real
  assumes "1 \<le> L" and "0 \<le> t" and "t \<le> L"
  shows "0 \<le> t - (t / L) ^ 3"
proof -
  have q: "0 \<le> t / L" "t / L \<le> 1"
    using assms by simp_all
  have "(t / L) ^ 3 \<le> (t / L) ^ 1"
    using q by (intro power_decreasing) simp_all
  also have "\<dots> \<le> t"
  proof -
    have "1 * t \<le> L * t" using assms(1,2) by (rule mult_right_mono)
    then show ?thesis using assms(1) by (simp add: field_simps)
  qed
  finally show ?thesis by simp
qed

text \<open>
  Claim C10.  For \<open>L \<ge> 1\<close> and a mesh within \<open>[0, L]\<close>, every entry of \<^verbatim>\<open>h_guess\<close> is the
  finite value \<open>t - (t / L)\<^sup>3\<close> and is not negative; at the mesh point \<open>0\<close> it is \<open>0\<close>; and
  for \<open>L = 20\<close> it is not negative at any point of \<^verbatim>\<open>np.linspace(0, 20, N)\<close>, whatever \<open>N\<close>.
\<close>

theorem h_guess_nonneg:
  assumes "1 \<le> L" and "\<forall>t\<in>set x. 0 \<le> t \<and> t \<le> L"
  shows "(\<exists>h. h_guess L x = of_reals h \<and> length h = length x \<and>
            (\<forall>i<length x. h ! i = x ! i - (x ! i / L) ^ 3 \<and> 0 \<le> h ! i)) \<and>
         h_guess L [0] = [Fin 0] \<and>
         (\<forall>N. \<exists>h. h_guess 20 (linspace 0 20 N) = of_reals h \<and> (\<forall>v\<in>set h. 0 \<le> v))"
proof (intro conjI allI)
  have L: "L \<noteq> 0" using assms(1) by simp
  show "\<exists>h. h_guess L x = of_reals h \<and> length h = length x \<and>
            (\<forall>i<length x. h ! i = x ! i - (x ! i / L) ^ 3 \<and> 0 \<le> h ! i)"
  proof (intro exI conjI allI impI)
    show "h_guess L x = of_reals (map (\<lambda>t. t - (t / L) ^ 3) x)"
      by (rule h_guess_finite [OF L])
    show "length (map (\<lambda>t. t - (t / L) ^ 3) x) = length x" by simp
    fix i assume i: "i < length x"
    then show "map (\<lambda>t. t - (t / L) ^ 3) x ! i = x ! i - (x ! i / L) ^ 3" by simp
    have "x ! i \<in> set x" using i by simp
    with assms(2) have "0 \<le> x ! i" "x ! i \<le> L" by auto
    then show "0 \<le> map (\<lambda>t. t - (t / L) ^ 3) x ! i"
      using i cubic_nonneg [OF assms(1)] by simp
  qed
  show "h_guess L [0] = [Fin 0]"
    using L by (simp add: h_guess_finite of_reals_def)
  fix N
  show "\<exists>h. h_guess 20 (linspace 0 20 N) = of_reals h \<and> (\<forall>v\<in>set h. 0 \<le> v)"
  proof (intro exI conjI ballI)
    show "h_guess 20 (linspace 0 20 N) = of_reals (map (\<lambda>t. t - (t / 20) ^ 3) (linspace 0 20 N))"
      by (rule h_guess_finite) simp
    fix v assume "v \<in> set (map (\<lambda>t. t - (t / 20) ^ 3) (linspace 0 20 N))"
    then obtain t where t: "t \<in> set (linspace 0 20 N)" and v: "v = t - (t / 20) ^ 3"
      by auto
    have "0 \<le> t \<and> t \<le> 20"
      using linspace_bounds [OF _ t] by simp
    then show "0 \<le> v"
      unfolding v using cubic_nonneg [of 20 t] by simp
  qed
qed

theorem h_guess_nonneg_witness:
  "\<exists>h. h_guess 20 [0, 10, 20] = of_reals h \<and> h ! 1 = 79 / 8 \<and> 0 \<le> h ! 1"
proof -
  have "\<forall>t\<in>set [0, 10, 20 :: real]. 0 \<le> t \<and> t \<le> 20" by simp
  from h_guess_nonneg [OF _ this] obtain h where
    "h_guess 20 [0, 10, 20] = of_reals h"
    and "\<forall>i<length [0, 10, 20 :: real]. h ! i = [0, 10, 20] ! i - ([0, 10, 20] ! i / 20) ^ 3 \<and> 0 \<le> h ! i"
    by auto
  then show ?thesis
    by (intro exI [of _ h]) (simp add: power3_eq_cube)
qed

end
